theory Spec2Isabelle
  imports Main "HOL-Library.Word"
begin

unbundle bit_operations_syntax

chapter \<open>go-base: the task runtime and the randid identifier\<close>

section \<open>Package randid: New and Decode\<close>

type_synonym byte = "8 word"

subsection \<open>Library primitives used by randid\<close>

text \<open>
  \<^verbatim>\<open>binary.LittleEndian.PutUint32(b[off:], v)\<close> writes the four bytes of \<open>v\<close>,
  least significant first, at \<open>off .. off + 3\<close> of the underlying buffer.
\<close>

definition PutUint32 :: "byte list \<Rightarrow> nat \<Rightarrow> 32 word \<Rightarrow> byte list" where
  "PutUint32 b off v =
     b[off := ucast v,
       off + 1 := ucast (drop_bit 8 v),
       off + 2 := ucast (drop_bit 16 v),
       off + 3 := ucast (drop_bit 24 v)]"

text \<open>\<^verbatim>\<open>binary.LittleEndian.Uint32(b[off:])\<close>.\<close>

definition Uint32 :: "byte list \<Rightarrow> nat \<Rightarrow> 32 word" where
  "Uint32 b off =
     ucast (b ! off) OR push_bit 8 (ucast (b ! (off + 1)))
       OR push_bit 16 (ucast (b ! (off + 2))) OR push_bit 24 (ucast (b ! (off + 3)))"

text \<open>
  Go's builtin \<^verbatim>\<open>copy(dst, src)\<close> copies \<open>min (len dst) (len src)\<close> elements and
  leaves the rest of \<open>dst\<close> as it was.
\<close>

definition copy :: "'a list \<Rightarrow> 'a list \<Rightarrow> 'a list" where
  "copy dst src = take (length dst) src @ drop (length src) dst"

text \<open>The alphabet of \<^verbatim>\<open>base64.URLEncoding\<close>; its padding character is \<open>=\<close>.\<close>

definition encodeURL :: string where
  "encodeURL = ''ABCDEFGHIJKLMNOPQRSTUVWXYZabcdefghijklmnopqrstuvwxyz0123456789-_''"

definition padChar :: char where
  "padChar = CHR ''=''"

definition enc :: "64 word \<Rightarrow> char" where
  "enc v = encodeURL ! unat (v AND 0x3F)"

text \<open>
  \<^verbatim>\<open>Encoding.Encode\<close>: three source bytes give four characters; a remainder of one or
  two bytes is padded.
\<close>

fun Encode :: "byte list \<Rightarrow> string" where
  "Encode (b0 # b1 # b2 # rest) =
     (let val = push_bit 16 (ucast b0) OR push_bit 8 (ucast b1) OR ucast b2
      in enc (drop_bit 18 val) # enc (drop_bit 12 val) # enc (drop_bit 6 val) # enc val
           # Encode rest)"
| "Encode [b0, b1] =
     (let val = push_bit 16 (ucast b0) OR push_bit 8 (ucast b1)
      in [enc (drop_bit 18 val), enc (drop_bit 12 val), enc (drop_bit 6 val), padChar])"
| "Encode [b0] =
     (let val = push_bit 16 (ucast b0)
      in [enc (drop_bit 18 val), enc (drop_bit 12 val), padChar, padChar])"
| "Encode [] = []"

text \<open>
  The decoder's table \<^verbatim>\<open>decodeMap\<close> sends a character of the alphabet to its index and
  every other byte to \<open>0xFF\<close>, here \<open>None\<close>.
\<close>

fun index_of :: "'a \<Rightarrow> 'a list \<Rightarrow> nat option" where
  "index_of c [] = None"
| "index_of c (x # xs) = (if c = x then Some 0 else map_option Suc (index_of c xs))"

definition decodeMap :: "char \<Rightarrow> 64 word option" where
  "decodeMap c = map_option of_nat (index_of c encodeURL)"

text \<open>The three bytes of a quantum of four six-bit values.\<close>

definition quantum :: "64 word \<Rightarrow> 64 word \<Rightarrow> 64 word \<Rightarrow> 64 word \<Rightarrow> byte list" where
  "quantum d0 d1 d2 d3 =
     (let val = push_bit 18 d0 OR push_bit 12 d1 OR push_bit 6 d2 OR d3
      in [ucast (drop_bit 16 val), ucast (drop_bit 8 val), ucast val])"

text \<open>
  \<^verbatim>\<open>Encoding.Decode\<close> with standard padding. The decoder skips carriage returns and
  line feeds wherever they stand, reads groups of four characters of the alphabet, and
  accepts padding only to complete the last group (\<open>xx==\<close> or \<open>xxx=\<close>). Everything else
  is a \<^verbatim>\<open>CorruptInputError\<close>, here \<open>None\<close>.
\<close>

fun decode_groups :: "string \<Rightarrow> byte list option" where
  "decode_groups [] = Some []"
| "decode_groups (c0 # c1 # c2 # c3 # rest) =
     (case (decodeMap c0, decodeMap c1) of
        (Some d0, Some d1) \<Rightarrow>
          (case (decodeMap c2, decodeMap c3) of
             (Some d2, Some d3) \<Rightarrow>
               (case decode_groups rest of
                  None \<Rightarrow> None
                | Some bs \<Rightarrow> Some (quantum d0 d1 d2 d3 @ bs))
           | (Some d2, None) \<Rightarrow>
               (if c3 = padChar \<and> rest = [] then Some (take 2 (quantum d0 d1 d2 0))
                else None)
           | (None, _) \<Rightarrow>
               (if c2 = padChar \<and> c3 = padChar \<and> rest = []
                then Some (take 1 (quantum d0 d1 0 0)) else None))
      | _ \<Rightarrow> None)"
| "decode_groups _ = None"

definition base64_Decode :: "string \<Rightarrow> byte list option" where
  "base64_Decode src =
     decode_groups (filter (\<lambda>c. c \<noteq> CHR 0x0A \<and> c \<noteq> CHR 0x0D) src)"

subsection \<open>The identifier\<close>

definition seqInc :: "32 word" where
  "seqInc = 673"

text \<open>
  One pass of the loop of \<^verbatim>\<open>New\<close>:
  \<^verbatim>\<open>src[i*2], src[6+i] = src[6+i], src[i*2]; src[i*2] = src[i*2] ^ src[9]\<close>.
\<close>

definition swap :: "nat \<Rightarrow> nat \<Rightarrow> 'a list \<Rightarrow> 'a list" where
  "swap i j xs = xs[i := xs ! j, j := xs ! i]"

definition new_step :: "byte list \<Rightarrow> nat \<Rightarrow> byte list" where
  "new_step src i =
     (let s = swap (i * 2) (6 + i) src in s[i * 2 := s ! (i * 2) XOR s ! 9])"

definition new_loop :: "byte list \<Rightarrow> byte list" where
  "new_loop src = foldl new_step src [0, 1, 2, 3, 4, 5]"

text \<open>
  One pass of the loop of \<^verbatim>\<open>Decode\<close>:
  \<^verbatim>\<open>dst[i*2] = dst[i*2] ^ dst[9]; dst[i*2], dst[6+i] = dst[6+i], dst[i*2]\<close>,
  for \<open>i\<close> from 5 down to 0.
\<close>

definition decode_step :: "byte list \<Rightarrow> nat \<Rightarrow> byte list" where
  "decode_step dst i =
     swap (i * 2) (6 + i) (dst[i * 2 := dst ! (i * 2) XOR dst ! 9])"

definition decode_loop :: "byte list \<Rightarrow> byte list" where
  "decode_loop dst = foldl decode_step dst [5, 4, 3, 2, 1, 0]"

text \<open>
  The twelve bytes that \<^verbatim>\<open>New\<close> assembles before its loop: the marker (at most six
  bytes of it), then the first six bytes of the scratch buffer, which hold the low three
  bytes of the time and the low three bytes of the sequence number.
\<close>

definition new_plain :: "64 word \<Rightarrow> 32 word \<Rightarrow> byte list \<Rightarrow> byte list" where
  "new_plain now seq' marker =
     (let src = replicate 12 0;
          dst = replicate 16 0;
          dst = PutUint32 dst 0 (ucast now);
          dst = PutUint32 dst 3 seq';
          src = copy (take 6 src) marker @ drop 6 src;
          src = take 6 src @ copy (drop 6 src) dst
      in src)"

text \<open>
  \<^verbatim>\<open>New\<close>, with the clock reading \<open>now\<close> (Unix seconds, an \<^verbatim>\<open>int64\<close>), the package
  variables \<open>seq\<close> and \<open>marker\<close> as arguments; it returns the identifier and the new
  value of \<open>seq\<close>. The encoding of twelve bytes fills all sixteen bytes of \<open>dst\<close>.
\<close>

definition New :: "64 word \<Rightarrow> 32 word \<Rightarrow> byte list \<Rightarrow> string \<times> 32 word" where
  "New now seq marker =
     (let seq' = seq + seqInc;
          src = new_loop (new_plain now seq' marker)
      in (Encode src, seq'))"

text \<open>
  The buffer of \<^verbatim>\<open>Decode\<close> after its loop and the assignment \<^verbatim>\<open>dst[9] = 0\<close>; \<open>None\<close>
  where \<^verbatim>\<open>Decode\<close> returns early. The decoder writes the bytes it decodes at the front of
  the twelve zero bytes of \<open>dst\<close>.
\<close>

definition Decode_dst :: "string \<Rightarrow> byte list option" where
  "Decode_dst ident =
     (let dst = replicate 12 0 in
      if length ident \<noteq> 16 then None
      else case base64_Decode ident of
        None \<Rightarrow> None
      | Some bs \<Rightarrow> Some ((decode_loop (copy dst bs))[9 := 0]))"

text \<open>
  \<^verbatim>\<open>Decode\<close>, with the clock reading \<open>now\<close> as argument: the IP \<^verbatim>\<open>dst[2:6]\<close> and the
  Unix seconds of the time; \<open>None\<close> stands for the result \<^verbatim>\<open>(nil, time.Time{})\<close>.
\<close>

definition Decode :: "64 word \<Rightarrow> string \<Rightarrow> (byte list \<times> 64 word) option" where
  "Decode now ident =
     (case Decode_dst ident of
        None \<Rightarrow> None
      | Some dst \<Rightarrow>
          (let timestamp = ucast (Uint32 dst 6);
               timestamp = timestamp OR (now AND 0xFF000000)
           in Some (take 4 (drop 2 dst), timestamp)))"



section \<open>Package base: the task runtime\<close>

subsection \<open>Time, errors and contexts\<close>

text \<open>
  A \<^verbatim>\<open>time.Duration\<close> is an \<^verbatim>\<open>int64\<close> count of nanoseconds; an instant is an integer
  number of nanoseconds on the process clock.
\<close>

type_synonym Duration = "64 word"
type_synonym Time = int

definition Second :: Duration where
  "Second = 1000000000"

text \<open>
  \<^verbatim>\<open>Time.Sub\<close> returns the difference as a \<^verbatim>\<open>Duration\<close> and saturates at the largest and
  smallest \<^verbatim>\<open>Duration\<close>.
\<close>

definition Sub :: "Time \<Rightarrow> Time \<Rightarrow> Duration" where
  "Sub t u =
     (if 2 ^ 63 \<le> t - u then word_of_int (2 ^ 63 - 1)
      else if t - u < - (2 ^ 63) then word_of_int (- (2 ^ 63))
      else word_of_int (t - u))"

datatype error =
    Canceled
  | DeadlineExceeded
  | ErrFireDied
  | ErrStartDied
  | ErrStopTimeout string error
  | ErrOther nat

text \<open>
  A \<^verbatim>\<open>context.Context\<close> derived from \<^verbatim>\<open>context.Background()\<close>: its error once it is
  cancelled, and its deadline if it has one. It is done when it has been cancelled or
  its deadline has passed.
\<close>

record ctx =
  err :: "error option"
  deadline :: "Time option"

definition WithCancel :: ctx where
  "WithCancel = \<lparr>err = None, deadline = None\<rparr>"

definition WithTimeout :: "Time \<Rightarrow> Duration \<Rightarrow> ctx" where
  "WithTimeout t d = \<lparr>err = None, deadline = Some (t + sint d)\<rparr>"

definition Err :: "Time \<Rightarrow> ctx \<Rightarrow> error option" where
  "Err t c =
     (case err c of
        Some e \<Rightarrow> Some e
      | None \<Rightarrow>
          (case deadline c of
             Some dl \<Rightarrow> if dl \<le> t then Some DeadlineExceeded else None
           | None \<Rightarrow> None))"

definition Done :: "Time \<Rightarrow> ctx \<Rightarrow> bool" where
  "Done t c = (Err t c \<noteq> None)"

text \<open>The cancel function of a context: the first of cancellation and expiry wins.\<close>

definition cancel :: "Time \<Rightarrow> ctx \<Rightarrow> ctx" where
  "cancel t c = c\<lparr>err := (case Err t c of None \<Rightarrow> Some Canceled | Some e \<Rightarrow> Some e)\<rparr>"

subsection \<open>The liveness registry\<close>

record live =
  live_last :: Time
  live_timeout :: Duration

text \<open>
  \<^verbatim>\<open>liver.data\<close> is a \<^verbatim>\<open>sync.Map\<close> from keys to \<^verbatim>\<open>*live\<close>. \<^verbatim>\<open>Register\<close> is its only
  writer and never stores a nil pointer, so the entries are modelled as plain values.
\<close>

type_synonym liver_data = "string \<rightharpoonup> live"

definition liver_Register :: "Time \<Rightarrow> string \<Rightarrow> Duration \<Rightarrow> liver_data \<Rightarrow> liver_data" where
  "liver_Register t key tmo data = data(key \<mapsto> \<lparr>live_last = t, live_timeout = tmo\<rparr>)"

definition liver_Cancel :: "string \<Rightarrow> liver_data \<Rightarrow> liver_data" where
  "liver_Cancel key data = data(key := None)"

text \<open>The test that \<^verbatim>\<open>liver.Schedule\<close> applies to an entry.\<close>

definition live_died :: "Time \<Rightarrow> live \<Rightarrow> bool" where
  "live_died t lc = (sint (live_timeout lc) < sint (Sub t (live_last lc)))"

datatype scan = Healthy | Fatal string live

text \<open>
  \<^verbatim>\<open>liver.Schedule\<close> ranges over the registry; the list is the order in which \<^verbatim>\<open>Range\<close>
  presents the entries, which \<^verbatim>\<open>sync.Map\<close> does not specify. At the first entry that has
  died it logs the key and the entry with \<^verbatim>\<open>Fatal\<close>, which ends the process, and stops
  the range.
\<close>

fun liver_Schedule :: "Time \<Rightarrow> (string \<times> live) list \<Rightarrow> scan" where
  "liver_Schedule t [] = Healthy"
| "liver_Schedule t ((key, lc) # rest) =
     (if live_died t lc then Fatal key lc else liver_Schedule t rest)"

subsection \<open>The batch of callbacks\<close>

text \<open>
  The registries \<^verbatim>\<open>reloadFuncs\<close> and \<^verbatim>\<open>retireFuncs\<close> map a key to a function. A function
  is named here by what it is bound to.
\<close>

datatype func = TaskStop string | TaskReload string | Func nat

type_synonym funcs = "string \<rightharpoonup> func"

text \<open>
  The state of one \<^verbatim>\<open>groupRun\<close>: the counter of the wait group, the map
  \<^verbatim>\<open>functionStatus\<close>, the keys whose function has been started, and the warnings logged.
\<close>

record batch =
  wg :: nat
  functionStatus :: "string \<rightharpoonup> bool"
  started :: "string list"
  warned :: "(string \<times> error) list"

text \<open>The body of the range: count the function, mark it unfinished, start its goroutine.\<close>

definition launch :: "batch \<Rightarrow> string \<times> func \<Rightarrow> batch" where
  "launch g kf =
     g\<lparr>wg := wg g + 1,
       functionStatus := (functionStatus g)(fst kf \<mapsto> False),
       started := started g @ [fst kf]\<rparr>"

text \<open>
  The end of a goroutine whose function has returned: warn on an error, mark the function
  finished, release the wait group.
\<close>

definition finish :: "(func \<Rightarrow> error option) \<Rightarrow> batch \<Rightarrow> string \<times> func \<Rightarrow> batch" where
  "finish ret g kf =
     (let g = (case ret (snd kf) of
                 Some e \<Rightarrow> g\<lparr>warned := warned g @ [(fst kf, e)]\<rparr>
               | None \<Rightarrow> g)
      in g\<lparr>functionStatus := (functionStatus g)(fst kf \<mapsto> True), wg := wg g - 1\<rparr>)"

datatype outcome = Returned | Panic "string \<rightharpoonup> bool"

text \<open>
  \<^verbatim>\<open>groupRun\<close>. The functions are the entries of the registry in the order of the range.
  What a function does is given by \<open>dur\<close>, the time it takes in nanoseconds (\<open>None\<close> if
  it never returns), and \<open>ret\<close>, the error it returns. The goroutines all start when the
  range runs; those that take less than the timeout finish, in the order of their
  durations, before the context expires. The context is cancelled when the wait group
  reaches zero; if it expires instead, the statuses are logged and \<^verbatim>\<open>Panic\<close> is called.
\<close>

definition in_time :: "(func \<Rightarrow> nat option) \<Rightarrow> nat \<Rightarrow> string \<times> func \<Rightarrow> bool" where
  "in_time dur tmo kf = (case dur (snd kf) of Some d \<Rightarrow> d < tmo | None \<Rightarrow> False)"

definition groupRun ::
  "(func \<Rightarrow> nat option) \<Rightarrow> (func \<Rightarrow> error option) \<Rightarrow> (string \<times> func) list \<Rightarrow> nat
     \<Rightarrow> batch \<times> outcome" where
  "groupRun dur ret functions tmo =
     (let g = foldl launch \<lparr>wg = 0, functionStatus = Map.empty, started = [], warned = []\<rparr>
                functions;
          finished = sort_key (\<lambda>kf. case dur (snd kf) of Some d \<Rightarrow> d | None \<Rightarrow> 0)
                       (filter (in_time dur tmo) functions);
          g = foldl (finish ret) g finished
      in (g, if wg g = 0 then Returned else Panic (functionStatus g)))"

text \<open>
  The batches of \<^verbatim>\<open>Reload()\<close> and \<^verbatim>\<open>Retire()\<close>: both call \<^verbatim>\<open>groupRun\<close> with ten
  seconds, on \<^verbatim>\<open>reloadFuncs\<close> and on \<^verbatim>\<open>retireFuncs\<close>.
\<close>

definition Reload_batch ::
  "(func \<Rightarrow> nat option) \<Rightarrow> (func \<Rightarrow> error option) \<Rightarrow> (string \<times> func) list \<Rightarrow> batch \<times> outcome"
  where
  "Reload_batch dur ret reloadFuncs_range = groupRun dur ret reloadFuncs_range (10 * unat Second)"

definition Retire_batch ::
  "(func \<Rightarrow> nat option) \<Rightarrow> (func \<Rightarrow> error option) \<Rightarrow> (string \<times> func) list \<Rightarrow> batch \<times> outcome"
  where
  "Retire_batch dur ret retireFuncs_range = groupRun dur ret retireFuncs_range (10 * unat Second)"

subsection \<open>Tasks: the data\<close>

datatype taskType =
    taskTypeOnetime
  | taskTypeOnTCP
  | taskTypeOnReload
  | taskTypeOnChannel
  | taskTypeOnInterval
  | taskTypeOnFsChange
  | taskTypeManual

text \<open>
  The values that the \<^verbatim>\<open>interface{}\<close> fields \<^verbatim>\<open>Trigger\<close> and \<^verbatim>\<open>Argument\<close> hold: nil, a
  bool, a string, a duration, the trigger channel, a listener, a watcher (\<open>False\<close> for
  the nil pointer that a failed \<^verbatim>\<open>NewWatcher\<close> returns), an accepted connection, a value
  received from the channel, a filesystem event.
\<close>

datatype 'v iface =
    INil
  | IBool bool
  | IString string
  | IDuration Duration
  | IChan
  | IListener
  | IWatcher bool
  | IConn nat
  | IValue 'v
  | IEvent nat

text \<open>
  What the runtime does that can be seen from outside, in order: the calls of the three
  operations of the behaviour (a call of \<^verbatim>\<open>Schedule\<close> with the value of \<^verbatim>\<open>Argument\<close> at
  the call), and the effects on the registries, the contexts and the trigger resources.
\<close>

datatype 'v event =
    EvReload
  | EvSchedule "'v iface"
  | EvRetire
  | EvRetireCancel string
  | EvReloadCancel string
  | EvRetireRegister string
  | EvReloadRegister string
  | EvOpenRetire
  | EvDie
  | EvGo
  | EvWait
  | EvListenerClose
  | EvWatcherClose
  | EvLiverCancel string
  | EvLiverRegister string Duration
  | EvFatal
  | EvPanic

text \<open>
  The behaviour (\<^verbatim>\<open>Tasker\<close>) is opaque to the runtime: each operation is given by the
  error it returns, which may depend on everything that happened before and on the call
  itself (the last event of the history passed).
\<close>

record 'v Tasker =
  Schedule :: "'v event list \<Rightarrow> error option"
  Reload :: "'v event list \<Rightarrow> error option"
  Retire :: "'v event list \<Rightarrow> error option"

text \<open>\<^verbatim>\<open>TaskBase\<close>; the field \<^verbatim>\<open>id\<close> is \<open>uid\<close> here, the logger is left out.\<close>

record 'v TaskBase =
  taskType :: taskType
  uid :: string
  Name :: string
  Trigger :: "'v iface"
  Argument :: "'v iface"
  Immediately :: bool
  Sleep :: bool

datatype 'v arg =
    ArgBool bool
  | ArgString string
  | ArgDuration Duration
  | ArgLog
  | ArgChan
  | ArgOther

text \<open>\<^verbatim>\<open>newTaskBase\<close>: the body of the loop over \<^verbatim>\<open>args\<close>, then the defaults.\<close>

fun apply_arg :: "'v TaskBase \<Rightarrow> 'v arg \<Rightarrow> 'v TaskBase" where
  "apply_arg w (ArgBool b) =
     (if taskType w = taskTypeOnInterval then w\<lparr>Argument := IBool b\<rparr>
      else w\<lparr>Immediately := b\<rparr>)"
| "apply_arg w (ArgString n) = w\<lparr>Name := n\<rparr>"
| "apply_arg w (ArgDuration d) = w\<lparr>Trigger := IDuration d\<rparr>"
| "apply_arg w ArgLog = w"
| "apply_arg w ArgChan = w\<lparr>Trigger := IChan\<rparr>"
| "apply_arg w ArgOther = w"

definition newTaskBase :: "string \<Rightarrow> 'v TaskBase \<Rightarrow> 'v arg list \<Rightarrow> 'v TaskBase" where
  "newTaskBase uuid w args =
     (let w = foldl apply_arg w args;
          w = (if uid w = [] then w\<lparr>uid := uuid\<rparr> else w);
          w = (if Name w = [] then w\<lparr>Name := ''anonymous/'' @ uid w\<rparr> else w)
      in w)"

text \<open>The zero value \<^verbatim>\<open>TaskBase{taskType: ty}\<close>.\<close>

definition TaskBase0 :: "taskType \<Rightarrow> 'v TaskBase" where
  "TaskBase0 ty =
     \<lparr>taskType = ty, uid = [], Name = [], Trigger = INil, Argument = INil,
      Immediately = False, Sleep = False\<rparr>"

text \<open>
  The program counter of the loop goroutine \<^verbatim>\<open>routine\<close>: not started, at the top of the
  loop, blocked in the \<^verbatim>\<open>select\<close>, inside \<^verbatim>\<open>Schedule\<close>, inside \<^verbatim>\<open>Retire\<close>, returned.
  The goroutine that the loop starts for a TCP, channel or filesystem task: absent, or
  blocked in its receive, accept or select.
\<close>

datatype pc = NoRoutine | LoopTop | Select | Scheduling | Retiring | Exited

datatype hpc = Idle | Receiving | Accepting | Watching

datatype once = NotCalled | Running | Finished

datatype proc = Alive | Exit int | Panicked

text \<open>The call that \<^verbatim>\<open>stop\<close> defers, to run when it returns.\<close>

datatype teardown = CloseListener | CancelLiver | CloseWatcher bool

text \<open>
  One task and what it shares with the rest of the process: the \<^verbatim>\<open>TaskBase\<close>, the fields
  of \<^verbatim>\<open>Task\<close>, the goroutines, the process, the clock, the package registries, the trigger
  resources (the channel with the values sent and not yet received, whether the listener
  and the watcher are open), and what has been observed: the history of events, all the
  values ever sent on the channel, and the values that the calls of \<^verbatim>\<open>Stop\<close>, \<^verbatim>\<open>Fire\<close>
  and \<^verbatim>\<open>Reload\<close> returned. The fields \<^verbatim>\<open>retire\<close> and \<^verbatim>\<open>retired\<close> are assigned together,
  so \<^verbatim>\<open>retired\<close> is nil exactly when \<open>retire\<close> is \<open>None\<close>; \<open>fire\<close> tells whether
  \<^verbatim>\<open>t.fire\<close> is set, and it then cancels \<open>nap\<close>.
\<close>

record 'v sys = "'v TaskBase" +
  t_id :: string
  onceStop :: once
  onceStart :: bool
  life :: ctx
  nap :: "ctx option"
  fire :: bool
  retire :: "ctx option"
  routine :: pc
  helper :: hpc
  stop_defer :: "teardown option"
  proc :: proc
  clock :: Time
  reloadFuncs :: funcs
  retireFuncs :: funcs
  liver :: liver_data
  chan_buf :: "'v list"
  chan_closed :: bool
  listener_open :: bool
  watcher_open :: bool
  trace :: "'v event list"
  chan_sent :: "'v list"
  stop_rets :: "error option list"
  fire_rets :: "error option list"
  reload_rets :: "error option list"

text \<open>What a task finds when it is created.\<close>

record 'v world =
  w_now :: Time
  w_reloadFuncs :: funcs
  w_retireFuncs :: funcs
  w_liver :: liver_data
  w_chan_buf :: "'v list"
  w_chan_closed :: bool

text \<open>What the operating system answers to \<^verbatim>\<open>start\<close>.\<close>

record env =
  listen_err :: "error option"
  newWatcher_err :: "error option"
  add_err :: "error option"

subsection \<open>Tasks: the operations\<close>

definition emit :: "'v event \<Rightarrow> 'v sys \<Rightarrow> 'v sys" where
  "emit e s = s\<lparr>trace := trace s @ [e]\<rparr>"

text \<open>An unrecovered panic ends the process.\<close>

definition panic :: "'v sys \<Rightarrow> 'v sys" where
  "panic s = emit EvPanic (s\<lparr>proc := Panicked\<rparr>)"

definition die :: "'v sys \<Rightarrow> 'v sys" where
  "die s = emit EvDie (s\<lparr>life := cancel (clock s) (life s)\<rparr>)"

text \<open>\<^verbatim>\<open>t.fire()\<close> and the \<^verbatim>\<open>cancel\<close> of the loop: both cancel the current nap.\<close>

definition cancel_nap :: "'v sys \<Rightarrow> 'v sys" where
  "cancel_nap s = s\<lparr>nap := map_option (cancel (clock s)) (nap s)\<rparr>"

definition RetireCancel :: "string \<Rightarrow> 'v sys \<Rightarrow> 'v sys" where
  "RetireCancel key s = emit (EvRetireCancel key) (s\<lparr>retireFuncs := (retireFuncs s)(key := None)\<rparr>)"

definition ReloadCancel :: "string \<Rightarrow> 'v sys \<Rightarrow> 'v sys" where
  "ReloadCancel key s = emit (EvReloadCancel key) (s\<lparr>reloadFuncs := (reloadFuncs s)(key := None)\<rparr>)"

definition RetireRegister :: "func \<Rightarrow> string \<Rightarrow> 'v sys \<Rightarrow> 'v sys" where
  "RetireRegister f key s =
     emit (EvRetireRegister key) (s\<lparr>retireFuncs := (retireFuncs s)(key \<mapsto> f)\<rparr>)"

definition ReloadRegister :: "func \<Rightarrow> string \<Rightarrow> 'v sys \<Rightarrow> 'v sys" where
  "ReloadRegister f key s =
     emit (EvReloadRegister key) (s\<lparr>reloadFuncs := (reloadFuncs s)(key \<mapsto> f)\<rparr>)"

text \<open>
  \<^verbatim>\<open>LiverRegister\<close> and \<^verbatim>\<open>LiverCancel\<close>. Both first make sure that the watchdog's own
  task exists (\<^verbatim>\<open>liverTrigger\<close>); that task is another task and is not part of this
  state.
\<close>

definition LiverRegister :: "string \<Rightarrow> Duration \<Rightarrow> 'v sys \<Rightarrow> 'v sys" where
  "LiverRegister key tmo s =
     emit (EvLiverRegister key tmo) (s\<lparr>liver := liver_Register (clock s) key tmo (liver s)\<rparr>)"

definition LiverCancel :: "string \<Rightarrow> 'v sys \<Rightarrow> 'v sys" where
  "LiverCancel key s = emit (EvLiverCancel key) (s\<lparr>liver := liver_Cancel key (liver s)\<rparr>)"

definition Died :: "'v sys \<Rightarrow> bool" where
  "Died s = Done (clock s) (life s)"

text \<open>A call of \<^verbatim>\<open>t.Tasker.Schedule\<close>: the call is recorded, the error is returned.\<close>

definition call_Schedule :: "'v Tasker \<Rightarrow> 'v sys \<Rightarrow> 'v sys \<times> error option" where
  "call_Schedule tk s =
     (let s = emit (EvSchedule (Argument s)) s in (s, Schedule tk (trace s)))"

text \<open>\<^verbatim>\<open>Task.Fire\<close>.\<close>

definition Task_Fire :: "'v Tasker \<Rightarrow> 'v sys \<Rightarrow> 'v sys \<times> error option" where
  "Task_Fire tk s =
     (if Died s then (s, Some ErrFireDied)
      else if taskType s = taskTypeManual then call_Schedule tk s
      else if fire s then (cancel_nap s, None)
      else (s, None))"

text \<open>\<^verbatim>\<open>Task.Reload\<close>, under the task's own lock.\<close>

definition Task_Reload :: "'v Tasker \<Rightarrow> 'v sys \<Rightarrow> 'v sys \<times> error option" where
  "Task_Reload tk s =
     (let s = emit EvReload s in
      case Reload tk (trace s) of
        Some e \<Rightarrow> (s, Some e)
      | None \<Rightarrow> (if fire s then cancel_nap s else s, None))"

text \<open>
  \<^verbatim>\<open>Task.stop\<close> up to the receive from \<^verbatim>\<open>t.retire.Done()\<close>. The \<^verbatim>\<open>switch\<close> only defers
  the teardown; the type assertions in the deferred calls are made at once.
\<close>

definition Task_stop :: "'v sys \<Rightarrow> 'v sys" where
  "Task_stop s =
     (let s = RetireCancel (t_id s) s;
          s = ReloadCancel (t_id s) s;
          s = emit EvOpenRetire (s\<lparr>retire := Some (WithTimeout (clock s) (3 * Second))\<rparr>);
          s = die s;
          s = (case taskType s of
                 taskTypeOnTCP \<Rightarrow>
                   (case Trigger s of
                      IListener \<Rightarrow> s\<lparr>stop_defer := Some CloseListener\<rparr>
                    | _ \<Rightarrow> panic s)
               | taskTypeOnInterval \<Rightarrow>
                   (case Argument s of
                      IBool b \<Rightarrow> if b then s\<lparr>stop_defer := Some CancelLiver\<rparr> else s
                    | _ \<Rightarrow> panic s)
               | taskTypeOnFsChange \<Rightarrow>
                   (case Trigger s of
                      IWatcher ok \<Rightarrow> s\<lparr>stop_defer := Some (CloseWatcher ok)\<rparr>
                    | _ \<Rightarrow> panic s)
               | _ \<Rightarrow> s)
      in if proc s = Alive then emit EvWait s else s)"

text \<open>The deferred call; closing through the nil watcher panics.\<close>

definition run_defer :: "'v sys \<Rightarrow> 'v sys" where
  "run_defer s =
     (case stop_defer s of
        None \<Rightarrow> s
      | Some CloseListener \<Rightarrow> emit EvListenerClose (s\<lparr>listener_open := False\<rparr>)
      | Some CancelLiver \<Rightarrow> LiverCancel (t_id s) s
      | Some (CloseWatcher ok) \<Rightarrow>
          (if ok then emit EvWatcherClose (s\<lparr>watcher_open := False\<rparr>) else panic s))"

text \<open>
  \<^verbatim>\<open>Task.stop\<close> from the moment \<^verbatim>\<open>t.retire\<close> is done, and the end of the \<^verbatim>\<open>Do\<close> of
  \<^verbatim>\<open>Task.Stop\<close>: the error, the deferred call, the return.
\<close>

definition Task_stop_wake :: "'v sys \<Rightarrow> 'v sys" where
  "Task_stop_wake s =
     (let e = (case retire s of
                 None \<Rightarrow> None
               | Some c \<Rightarrow>
                   (case Err (clock s) c of
                      None \<Rightarrow> None
                    | Some Canceled \<Rightarrow> None
                    | Some e \<Rightarrow> Some (ErrStopTimeout (t_id s) e)));
          s = run_defer s
      in if proc s = Alive
         then s\<lparr>onceStop := Finished, stop_rets := stop_rets s @ [e]\<rparr>
         else s)"

text \<open>
  \<^verbatim>\<open>Task.start\<close> from the comment \<^verbatim>\<open>// run\<close> on: the immediate call, the goroutine, the
  registration.
\<close>

definition start_run :: "'v Tasker \<Rightarrow> 'v sys \<Rightarrow> 'v sys \<times> error option" where
  "start_run tk s =
     (let (s, e) = (if Immediately s \<and> \<not> Sleep s
                    then (let (s, e) = call_Schedule tk s
                          in (s, if e = Some Canceled then None else e))
                    else (s, None));
          s = emit EvGo (s\<lparr>routine := LoopTop\<rparr>);
          s = RetireRegister (TaskStop (t_id s)) (t_id s) s;
          s = ReloadRegister (TaskReload (t_id s)) (t_id s) s
      in (s, e))"

text \<open>\<^verbatim>\<open>Task.start\<close>.\<close>

definition Task_start :: "'v Tasker \<Rightarrow> env \<Rightarrow> 'v sys \<Rightarrow> 'v sys \<times> error option" where
  "Task_start tk ev s =
     (if Died s then (s, Some ErrStartDied)
      else case taskType s of
        taskTypeManual \<Rightarrow> (if Immediately s then call_Schedule tk s else (s, None))
      | taskTypeOnetime \<Rightarrow> (let (s, e) = call_Schedule tk s in (die s, e))
      | taskTypeOnTCP \<Rightarrow>
          (case Argument s of
             IString addr \<Rightarrow>
               (case listen_err ev of
                  Some e \<Rightarrow> (die (s\<lparr>Trigger := INil\<rparr>), Some e)
                | None \<Rightarrow> start_run tk (s\<lparr>Trigger := IListener, listener_open := True\<rparr>))
           | _ \<Rightarrow> (panic s, None))
      | taskTypeOnFsChange \<Rightarrow>
          (case newWatcher_err ev of
             Some e \<Rightarrow> (die (s\<lparr>Trigger := IWatcher False\<rparr>), Some e)
           | None \<Rightarrow>
               (let s = s\<lparr>Trigger := IWatcher True, watcher_open := True\<rparr> in
                case Argument s of
                  IString path \<Rightarrow>
                    (case add_err ev of
                       Some e \<Rightarrow> (die (emit EvWatcherClose (s\<lparr>watcher_open := False\<rparr>)), Some e)
                     | None \<Rightarrow> start_run tk s)
                | _ \<Rightarrow> (panic s, None)))
      | _ \<Rightarrow> start_run tk s)"

text \<open>\<^verbatim>\<open>Task.Start\<close>: \<^verbatim>\<open>start\<close> at most once; later calls return nil.\<close>

definition Task_Start :: "'v Tasker \<Rightarrow> env \<Rightarrow> 'v sys \<Rightarrow> 'v sys \<times> error option" where
  "Task_Start tk ev s =
     (if onceStart s then (s, None) else Task_start tk ev (s\<lparr>onceStart := True\<rparr>))"

text \<open>
  \<^verbatim>\<open>newTask\<close>: the task takes a copy of the \<^verbatim>\<open>TaskBase\<close>, its life begins, \<^verbatim>\<open>Reload\<close> runs
  and a failure is logged with \<^verbatim>\<open>Fatal\<close>, which ends the process with code 1; otherwise
  \<^verbatim>\<open>Start\<close> runs and its error is returned beside the task.
\<close>

definition newTask ::
  "'v Tasker \<Rightarrow> env \<Rightarrow> 'v world \<Rightarrow> 'v TaskBase \<Rightarrow> 'v sys \<times> error option" where
  "newTask tk ev w b =
     (let s = \<lparr>taskType = taskType b, uid = uid b, Name = Name b, Trigger = Trigger b,
               Argument = Argument b, Immediately = Immediately b, Sleep = Sleep b,
               t_id = Name b @ ''/'' @ uid b,
               onceStop = NotCalled, onceStart = False,
               life = WithCancel, nap = None, fire = False, retire = None,
               routine = NoRoutine, helper = Idle, stop_defer = None, proc = Alive,
               clock = w_now w, reloadFuncs = w_reloadFuncs w, retireFuncs = w_retireFuncs w,
               liver = w_liver w, chan_buf = w_chan_buf w, chan_closed = w_chan_closed w,
               listener_open = False, watcher_open = False,
               trace = [], chan_sent = w_chan_buf w,
               stop_rets = [], fire_rets = [], reload_rets = []\<rparr>;
          (s, e) = Task_Reload tk s
      in case e of
           Some x \<Rightarrow> (emit EvFatal (s\<lparr>proc := Exit 1\<rparr>), None)
         | None \<Rightarrow> Task_Start tk ev s)"

text \<open>The seven constructors; \<open>uuid\<close> is the identifier that \<^verbatim>\<open>uuid.New()\<close> draws.\<close>

definition NewTaskOneTime ::
  "'v Tasker \<Rightarrow> env \<Rightarrow> 'v world \<Rightarrow> string \<Rightarrow> 'v arg list \<Rightarrow> 'v sys \<times> error option" where
  "NewTaskOneTime tk ev w uuid args =
     newTask tk ev w (newTaskBase uuid (TaskBase0 taskTypeOnetime) args)"

definition NewTaskOnTCP ::
  "'v Tasker \<Rightarrow> env \<Rightarrow> 'v world \<Rightarrow> string \<Rightarrow> string \<Rightarrow> 'v arg list \<Rightarrow> 'v sys \<times> error option"
  where
  "NewTaskOnTCP tk ev w uuid listen args =
     newTask tk ev w
       (newTaskBase uuid ((TaskBase0 taskTypeOnTCP)\<lparr>Argument := IString listen\<rparr>) args)"

definition NewTaskOnReload ::
  "'v Tasker \<Rightarrow> env \<Rightarrow> 'v world \<Rightarrow> string \<Rightarrow> 'v arg list \<Rightarrow> 'v sys \<times> error option" where
  "NewTaskOnReload tk ev w uuid args =
     newTask tk ev w
       (newTaskBase uuid ((TaskBase0 taskTypeOnReload)\<lparr>Immediately := True\<rparr>) args)"

definition NewTaskOnChannel ::
  "'v Tasker \<Rightarrow> env \<Rightarrow> 'v world \<Rightarrow> string \<Rightarrow> 'v arg list \<Rightarrow> 'v sys \<times> error option" where
  "NewTaskOnChannel tk ev w uuid args =
     newTask tk ev w (newTaskBase uuid (TaskBase0 taskTypeOnChannel) args)"

definition NewTaskOnInterval ::
  "'v Tasker \<Rightarrow> env \<Rightarrow> 'v world \<Rightarrow> string \<Rightarrow> 'v arg list \<Rightarrow> 'v sys \<times> error option" where
  "NewTaskOnInterval tk ev w uuid args =
     newTask tk ev w
       (newTaskBase uuid
          ((TaskBase0 taskTypeOnInterval)\<lparr>Argument := IBool True, Immediately := True\<rparr>) args)"

definition NewTaskOnFsChange ::
  "'v Tasker \<Rightarrow> env \<Rightarrow> 'v world \<Rightarrow> string \<Rightarrow> string \<Rightarrow> 'v arg list \<Rightarrow> 'v sys \<times> error option"
  where
  "NewTaskOnFsChange tk ev w uuid path args =
     newTask tk ev w
       (newTaskBase uuid ((TaskBase0 taskTypeOnFsChange)\<lparr>Argument := IString path\<rparr>) args)"

definition NewTaskManual ::
  "'v Tasker \<Rightarrow> env \<Rightarrow> 'v world \<Rightarrow> string \<Rightarrow> 'v arg list \<Rightarrow> 'v sys \<times> error option" where
  "NewTaskManual tk ev w uuid args =
     newTask tk ev w (newTaskBase uuid (TaskBase0 taskTypeManual) args)"

subsection \<open>Tasks: the goroutines\<close>

text \<open>
  The top of the loop of \<^verbatim>\<open>routine\<close>: the \<^verbatim>\<open>switch\<close> on the type makes the nap of this
  pass and, for a TCP, channel or filesystem task, starts the goroutine that waits for
  the trigger; then the loop enters its \<^verbatim>\<open>select\<close>, which needs a nap.
\<close>

definition routine_top :: "'v sys \<Rightarrow> 'v sys" where
  "routine_top s =
     (let s = (case taskType s of
                 taskTypeOnInterval \<Rightarrow>
                   (if Sleep s
                    then LiverCancel (t_id s) (s\<lparr>nap := Some WithCancel, fire := True\<rparr>)
                    else (case Trigger s of
                            IDuration d \<Rightarrow>
                              (let s = s\<lparr>nap := Some (WithTimeout (clock s) d), fire := True\<rparr>
                               in case Argument s of
                                    IBool b \<Rightarrow>
                                      if b then LiverRegister (t_id s) (d * 4) s else s
                                  | _ \<Rightarrow> panic s)
                          | _ \<Rightarrow> panic s))
               | taskTypeOnReload \<Rightarrow> s\<lparr>nap := Some WithCancel, fire := True\<rparr>
               | taskTypeManual \<Rightarrow> s\<lparr>nap := Some WithCancel, fire := True\<rparr>
               | taskTypeOnTCP \<Rightarrow> s\<lparr>nap := Some WithCancel, helper := Accepting\<rparr>
               | taskTypeOnChannel \<Rightarrow> s\<lparr>nap := Some WithCancel, helper := Receiving\<rparr>
               | taskTypeOnFsChange \<Rightarrow> s\<lparr>nap := Some WithCancel, helper := Watching\<rparr>
               | taskTypeOnetime \<Rightarrow> s)
      in if proc s \<noteq> Alive then s
         else if nap s = None then panic s
         else s\<lparr>routine := Select\<rparr>)"

text \<open>
  The \<^verbatim>\<open>select\<close> has taken the nap: the loop calls \<^verbatim>\<open>Schedule\<close>, unless the task is a
  sleeping interval task. The loop ignores what \<^verbatim>\<open>Schedule\<close> returns.
\<close>

definition routine_fire :: "'v Tasker \<Rightarrow> 'v sys \<Rightarrow> 'v sys" where
  "routine_fire tk s =
     (if taskType s = taskTypeOnInterval then
        (if \<not> Sleep s then
           (case Trigger s of
              IDuration d \<Rightarrow> (fst (call_Schedule tk s))\<lparr>routine := Scheduling\<rparr>
            | _ \<Rightarrow> panic s)
         else s\<lparr>routine := LoopTop\<rparr>)
      else (fst (call_Schedule tk s))\<lparr>routine := Scheduling\<rparr>)"

text \<open>The \<^verbatim>\<open>select\<close> has taken the end of the life: the loop calls \<^verbatim>\<open>Retire\<close>.\<close>

definition routine_life :: "'v sys \<Rightarrow> 'v sys" where
  "routine_life s = emit EvRetire (s\<lparr>routine := Retiring\<rparr>)"

text \<open>
  \<^verbatim>\<open>Retire\<close> has returned: the loop calls \<^verbatim>\<open>t.retired()\<close> and returns. Calling the nil
  function panics.
\<close>

definition routine_retired :: "'v sys \<Rightarrow> 'v sys" where
  "routine_retired s =
     (case retire s of
        None \<Rightarrow> panic s
      | Some c \<Rightarrow> s\<lparr>retire := Some (cancel (clock s) c), routine := Exited\<rparr>)"

text \<open>
  The goroutine of a channel task: it receives once. A value goes to \<^verbatim>\<open>Argument\<close> and
  the nap is cancelled; on a closed and empty channel the life is ended. It blocks while
  the channel is open and empty. \<^verbatim>\<open>Recv\<close> on something that is not a channel panics.
\<close>

definition helper_recv :: "'v sys \<Rightarrow> 'v sys option" where
  "helper_recv s =
     (case Trigger s of
        IChan \<Rightarrow>
          (case chan_buf s of
             v # vs \<Rightarrow>
               Some (cancel_nap (s\<lparr>chan_buf := vs, Argument := IValue v, helper := Idle\<rparr>))
           | [] \<Rightarrow> if chan_closed s then Some (die (s\<lparr>helper := Idle\<rparr>)) else None)
      | _ \<Rightarrow> Some (panic s))"

text \<open>
  The goroutine of a TCP task, at one return of \<^verbatim>\<open>Accept\<close>: with a connection (the
  listener must be open), or with an error, after which it accepts again unless the task
  has died. Its \<^verbatim>\<open>cancel\<close> is deferred to its return.
\<close>

definition helper_accept :: "nat option \<Rightarrow> 'v sys \<Rightarrow> 'v sys option" where
  "helper_accept r s =
     (case Trigger s of
        IListener \<Rightarrow>
          (case r of
             Some c \<Rightarrow>
               if listener_open s
               then Some (cancel_nap (s\<lparr>Argument := IConn c, helper := Idle\<rparr>))
               else None
           | None \<Rightarrow>
               (let s = s\<lparr>Argument := INil\<rparr>
                in if Died s then Some (cancel_nap (s\<lparr>helper := Idle\<rparr>)) else Some s))
      | _ \<Rightarrow> Some (panic s))"

text \<open>
  The goroutine of a filesystem task, when the watcher delivers an event. (Errors of the
  watcher and the end of the life send it round its loop again and change nothing.)
\<close>

definition helper_event :: "nat \<Rightarrow> 'v sys \<Rightarrow> 'v sys option" where
  "helper_event e s =
     (if watcher_open s
      then Some (cancel_nap (s\<lparr>Argument := IEvent e, helper := Idle\<rparr>))
      else None)"

subsection \<open>Tasks: the interleaving\<close>

text \<open>
  The steps that the goroutines and the outside world take, each atomic: time passes;
  \<^verbatim>\<open>Stop\<close> is called (and runs to its blocking receive, or returns at once when \<^verbatim>\<open>stop\<close>
  has been run); the blocked \<^verbatim>\<open>Stop\<close> wakes up and returns; \<^verbatim>\<open>Start\<close>, \<^verbatim>\<open>Fire\<close> or
  \<^verbatim>\<open>Reload\<close> is called; the loop reaches its \<^verbatim>\<open>select\<close>, leaves it by the nap or by the
  end of the life, comes back from \<^verbatim>\<open>Schedule\<close> or from \<^verbatim>\<open>Retire\<close>; the waiting goroutine
  receives, accepts or gets an event; someone sends on the trigger channel or closes it.
\<close>

datatype 'v action =
    Advance nat
  | Call_Stop
  | Wake_Stop
  | Call_Start env
  | Call_Fire
  | Call_Reload
  | Routine_top
  | Routine_nap
  | Routine_scheduled
  | Routine_life
  | Routine_retired
  | Helper_recv
  | Helper_accept "nat option"
  | Helper_event nat
  | Chan_send 'v
  | Chan_close

definition nap_done :: "'v sys \<Rightarrow> bool" where
  "nap_done s = (case nap s of Some c \<Rightarrow> Done (clock s) c | None \<Rightarrow> False)"

definition retire_done :: "'v sys \<Rightarrow> bool" where
  "retire_done s = (case retire s of Some c \<Rightarrow> Done (clock s) c | None \<Rightarrow> False)"

text \<open>
  One step; \<open>None\<close> when the step cannot be taken in this state. Nothing happens in a
  process that has ended. A call of \<^verbatim>\<open>Stop\<close> that finds \<^verbatim>\<open>stop\<close> running waits in
  \<^verbatim>\<open>Once.Do\<close> and then returns nil: it is the step taken once \<^verbatim>\<open>stop\<close> has finished.
\<close>

definition step :: "'v Tasker \<Rightarrow> 'v action \<Rightarrow> 'v sys \<Rightarrow> 'v sys option" where
  "step tk a s =
     (if proc s \<noteq> Alive then None
      else case a of
        Advance d \<Rightarrow> Some (s\<lparr>clock := clock s + int d\<rparr>)
      | Call_Stop \<Rightarrow>
          (case onceStop s of
             NotCalled \<Rightarrow> Some (Task_stop (s\<lparr>onceStop := Running\<rparr>))
           | Running \<Rightarrow> None
           | Finished \<Rightarrow> Some (s\<lparr>stop_rets := stop_rets s @ [None]\<rparr>))
      | Wake_Stop \<Rightarrow>
          (if onceStop s = Running \<and> retire_done s then Some (Task_stop_wake s) else None)
      | Call_Start ev \<Rightarrow> Some (fst (Task_Start tk ev s))
      | Call_Fire \<Rightarrow>
          (let (s, e) = Task_Fire tk s in Some (s\<lparr>fire_rets := fire_rets s @ [e]\<rparr>))
      | Call_Reload \<Rightarrow>
          (let (s, e) = Task_Reload tk s in Some (s\<lparr>reload_rets := reload_rets s @ [e]\<rparr>))
      | Routine_top \<Rightarrow> (if routine s = LoopTop then Some (routine_top s) else None)
      | Routine_nap \<Rightarrow>
          (if routine s = Select \<and> nap_done s then Some (routine_fire tk s) else None)
      | Routine_scheduled \<Rightarrow>
          (if routine s = Scheduling then Some (s\<lparr>routine := LoopTop\<rparr>) else None)
      | Routine_life \<Rightarrow>
          (if routine s = Select \<and> Died s then Some (routine_life s) else None)
      | Routine_retired \<Rightarrow>
          (if routine s = Retiring then Some (routine_retired s) else None)
      | Helper_recv \<Rightarrow> (if helper s = Receiving then helper_recv s else None)
      | Helper_accept r \<Rightarrow> (if helper s = Accepting then helper_accept r s else None)
      | Helper_event e \<Rightarrow> (if helper s = Watching then helper_event e s else None)
      | Chan_send v \<Rightarrow>
          (if chan_closed s then None
           else Some (s\<lparr>chan_buf := chan_buf s @ [v], chan_sent := chan_sent s @ [v]\<rparr>))
      | Chan_close \<Rightarrow> (if chan_closed s then None else Some (s\<lparr>chan_closed := True\<rparr>)))"

text \<open>A run: the steps of a list, one after the other, as long as each can be taken.\<close>

fun run :: "'v Tasker \<Rightarrow> 'v action list \<Rightarrow> 'v sys \<Rightarrow> 'v sys option" where
  "run tk [] s = Some s"
| "run tk (a # as) s = (case step tk a s of None \<Rightarrow> None | Some s' \<Rightarrow> run tk as s')"

subsection \<open>Reading the history\<close>

text \<open>The arguments of the calls of \<^verbatim>\<open>Schedule\<close>, in order.\<close>

fun schedule_args :: "'v event list \<Rightarrow> 'v iface list" where
  "schedule_args [] = []"
| "schedule_args (EvSchedule x # es) = x # schedule_args es"
| "schedule_args (e # es) = schedule_args es"

definition count_ev :: "'v event \<Rightarrow> 'v event list \<Rightarrow> nat" where
  "count_ev e es = length (filter (\<lambda>x. x = e) es)"

subsection \<open>The constructors together, and some concrete tasks\<close>

definition constructors ::
  "'v Tasker \<Rightarrow> env \<Rightarrow> 'v world \<Rightarrow> string \<Rightarrow> string \<Rightarrow> 'v arg list
     \<Rightarrow> ('v sys \<times> error option) list" where
  "constructors tk ev w uuid str args =
     [NewTaskOneTime tk ev w uuid args,
      NewTaskOnTCP tk ev w uuid str args,
      NewTaskOnReload tk ev w uuid args,
      NewTaskOnChannel tk ev w uuid args,
      NewTaskOnInterval tk ev w uuid args,
      NewTaskOnFsChange tk ev w uuid str args,
      NewTaskManual tk ev w uuid args]"

text \<open>A behaviour whose operations all return nil, and one whose \<^verbatim>\<open>Reload\<close> fails.\<close>

definition quiet :: "nat Tasker" where
  "quiet = \<lparr>Schedule = (\<lambda>h. None), Reload = (\<lambda>h. None), Retire = (\<lambda>h. None)\<rparr>"

definition misconfigured :: "nat Tasker" where
  "misconfigured =
     \<lparr>Schedule = (\<lambda>h. None), Reload = (\<lambda>h. Some (ErrOther 1)), Retire = (\<lambda>h. None)\<rparr>"

definition world0 :: "nat world" where
  "world0 = \<lparr>w_now = 0, w_reloadFuncs = Map.empty, w_retireFuncs = Map.empty,
             w_liver = Map.empty, w_chan_buf = [], w_chan_closed = False\<rparr>"

definition env_ok :: env where
  "env_ok = \<lparr>listen_err = None, newWatcher_err = None, add_err = None\<rparr>"

text \<open>
  The tasks of the package itself and of its callers, as they are created:
  \<^verbatim>\<open>NewTaskOnChannel(&siger{sig: sig}, "signal", sig)\<close>,
  \<^verbatim>\<open>NewTaskOnInterval(memorInstance, "memor", 20*time.Second)\<close>,
  \<^verbatim>\<open>NewTaskManual(&confer{}, "config")\<close>, and a TCP task.
\<close>

definition signal_task :: "nat sys" where
  "signal_task =
     fst (NewTaskOnChannel quiet env_ok world0 ''u1'' [ArgString ''signal'', ArgChan])"

definition memor_task :: "nat sys" where
  "memor_task =
     fst (NewTaskOnInterval quiet env_ok world0 ''u2''
            [ArgString ''memor'', ArgDuration (20 * Second)])"

definition config_task :: "nat sys" where
  "config_task = fst (NewTaskManual quiet env_ok world0 ''u3'' [ArgString ''config''])"

definition tcp_task :: "nat sys" where
  "tcp_task = fst (NewTaskOnTCP quiet env_ok world0 ''u4'' '':8080'' [ArgString ''tcp''])"

subsection \<open>Invariants\<close>

text \<open>A manual task has no goroutine, and \<^verbatim>\<open>stop\<close> defers nothing for it.\<close>

definition manual_inv :: "'v sys \<Rightarrow> bool" where
  "manual_inv s \<longleftrightarrow>
     taskType s = taskTypeManual \<and> routine s = NoRoutine \<and> helper s = Idle \<and> onceStart s
     \<and> proc s = Alive \<and> stop_defer s = None"

text \<open>
  What holds of \<^verbatim>\<open>Stop\<close> in every state of a task that has been started: once \<^verbatim>\<open>stop\<close>
  has been entered the life is over; a call has returned only if \<^verbatim>\<open>stop\<close> has finished;
  every return but the first is nil; and \<^verbatim>\<open>Retire\<close> has been called once if the loop is
  in it or past it, and not at all otherwise.
\<close>

definition stop_inv :: "'v sys \<Rightarrow> bool" where
  "stop_inv s \<longleftrightarrow>
     onceStart s
     \<and> (onceStop s \<noteq> NotCalled \<longrightarrow> Died s)
     \<and> (stop_rets s \<noteq> [] \<longrightarrow> onceStop s = Finished)
     \<and> (\<forall>r \<in> set (tl (stop_rets s)). r = None)
     \<and> count_ev EvRetire (trace s) = (if routine s = Retiring \<or> routine s = Exited then 1 else 0)"

chapter \<open>Properties\<close>

section \<open>randid: Decode after New\<close>

lemma length_swap [simp]: "length (swap i j xs) = length xs"
  by (simp add: swap_def)

lemma swap_swap: "i < length xs \<Longrightarrow> j < length xs \<Longrightarrow> swap i j (swap i j xs) = xs"
  by (cases "i = j") (simp_all add: swap_def list_update_swap)

lemma length_new_step [simp]: "length (new_step s i) = length s"
  by (simp add: new_step_def Let_def)

lemma length_decode_step [simp]: "length (decode_step s i) = length s"
  by (simp add: decode_step_def)

text \<open>
  One pass of the decoding loop undoes the same pass of the encoding loop: the XOR is
  applied to an even index, so byte 9 is the same when it is applied and when it is
  removed, and the swap is its own inverse.
\<close>

lemma decode_new_step:
  assumes "9 < length s" "i * 2 < length s" "6 + i < length s"
  shows "decode_step (new_step s i) i = s"
proof -
  define t where "t = swap (i * 2) (6 + i) s"
  have len: "length t = length s" by (simp add: t_def)
  have ne: "i * 2 \<noteq> 9" by presburger
  let ?u = "t[i * 2 := t ! (i * 2) XOR t ! 9]"
  have "?u[i * 2 := ?u ! (i * 2) XOR ?u ! 9] = t"
    using assms len ne by (simp add: xor.assoc)
  then show ?thesis
    using assms
    by (simp add: decode_step_def new_step_def Let_def t_def [symmetric])
       (simp add: t_def swap_swap)
qed

lemma decode_new_loop:
  assumes "length s = 12"
  shows "decode_loop (new_loop s) = s"
  using assms by (simp add: decode_loop_def new_loop_def decode_new_step)

lemma length_new_loop [simp]: "length (new_loop s) = length s"
  by (simp add: new_loop_def)

subsection \<open>Base64 on twelve bytes\<close>

lemma index_of_nth: "distinct xs \<Longrightarrow> i < length xs \<Longrightarrow> index_of (xs ! i) xs = Some i"
proof (induction xs arbitrary: i)
  case Nil
  then show ?case by simp
next
  case (Cons x xs)
  then show ?case by (cases i) auto
qed

lemma distinct_encodeURL: "distinct encodeURL"
  by (simp add: encodeURL_def)

lemma length_encodeURL: "length encodeURL = 64"
  by (simp add: encodeURL_def)

lemma unat_and_3F: "unat ((v :: 64 word) AND 0x3F) < 64"
proof -
  have "v AND 0x3F \<le> 0x3F" by (rule word_and_le1)
  then show ?thesis by (simp add: word_le_nat_alt)
qed

lemma decodeMap_enc: "decodeMap (enc v) = Some (v AND 0x3F)"
  using unat_and_3F [of v]
  by (simp add: decodeMap_def enc_def index_of_nth distinct_encodeURL length_encodeURL)

lemma enc_not_newline: "enc v \<noteq> CHR 0x0A \<and> enc v \<noteq> CHR 0x0D"
proof -
  have "enc v \<in> set encodeURL"
    using unat_and_3F [of v] by (simp add: enc_def length_encodeURL)
  moreover have "CHR 0x0A \<notin> set encodeURL" "CHR 0x0D \<notin> set encodeURL"
    by (simp_all add: encodeURL_def)
  ultimately show ?thesis by metis
qed

lemma mask6: "(63 :: 64 word) = mask 6"
  by (simp add: mask_eq_exp_minus_1)

lemma quantum_enc:
  fixes b0 b1 b2 :: byte
  defines "val \<equiv> push_bit 16 (ucast b0) OR push_bit 8 (ucast b1) OR (ucast b2 :: 64 word)"
  shows "quantum (drop_bit 18 val AND 0x3F) (drop_bit 12 val AND 0x3F)
           (drop_bit 6 val AND 0x3F) (val AND 0x3F) = [b0, b1, b2]"
proof -
  have a: "\<And>n k. k \<le> n \<Longrightarrow> k + (n - k) = (n::nat)" by simp
  have s: "\<And>n. 2 \<le> n \<Longrightarrow> Suc (Suc (n - 2)) = n"
    "\<And>n. \<not> n < 2 \<Longrightarrow> Suc (Suc (n - 2)) = n"
    "\<And>n. 4 \<le> n \<Longrightarrow> Suc (Suc (Suc (Suc (n - 4)))) = n"
    "\<And>n. \<not> n < 4 \<Longrightarrow> Suc (Suc (Suc (Suc (n - 4)))) = n"
    "\<And>n. 6 \<le> n \<Longrightarrow> Suc (Suc (Suc (Suc (Suc (Suc (n - 6)))))) = n"
    "\<And>n. \<not> n < 6 \<Longrightarrow> Suc (Suc (Suc (Suc (Suc (Suc (n - 6)))))) = n"
    by simp_all
  define r where "r = push_bit 18 (drop_bit 18 val AND mask 6)
     OR push_bit 12 (drop_bit 12 val AND mask 6)
     OR push_bit 6 (drop_bit 6 val AND mask 6) OR (val AND mask 6)"
  have b0: "ucast (drop_bit 16 r) = b0"
    unfolding val_def r_def
    by (rule bit_word_eqI) (auto simp add: bit_simps a s dest: bit_imp_le_length)
  have b1: "ucast (drop_bit 8 r) = b1"
    unfolding val_def r_def
    by (rule bit_word_eqI) (auto simp add: bit_simps a s dest: bit_imp_le_length)
  have b2: "ucast r = b2"
    unfolding val_def r_def
    by (rule bit_word_eqI) (auto simp add: bit_simps a s dest: bit_imp_le_length)
  show ?thesis
    using b0 b1 b2 by (simp add: quantum_def Let_def mask6 r_def)
qed

lemma decode_groups_enc:
  "decode_groups (enc (drop_bit 18 v) # enc (drop_bit 12 v) # enc (drop_bit 6 v) # enc v # rest) =
     (case decode_groups rest of
        None \<Rightarrow> None
      | Some bs \<Rightarrow>
          Some (quantum (drop_bit 18 v AND 0x3F) (drop_bit 12 v AND 0x3F)
                  (drop_bit 6 v AND 0x3F) (v AND 0x3F) @ bs))"
  by (simp add: decodeMap_enc)

lemma decode_Encode3:
  "decode_groups (Encode (b0 # b1 # b2 # rest)) =
     (case decode_groups (Encode rest) of None \<Rightarrow> None | Some bs \<Rightarrow> Some (b0 # b1 # b2 # bs))"
  unfolding Encode.simps Let_def decode_groups_enc quantum_enc
  by (cases "decode_groups (Encode rest)") simp_all

lemma decode_Encode12:
  "decode_groups (Encode [a0, a1, a2, a3, a4, a5, a6, a7, a8, a9, a10, a11]) =
     Some [a0, a1, a2, a3, a4, a5, a6, a7, a8, a9, a10, a11]"
  unfolding decode_Encode3 by simp

lemma Encode_no_newline:
  "filter (\<lambda>c. c \<noteq> CHR 0x0A \<and> c \<noteq> CHR 0x0D)
     (Encode [a0, a1, a2, a3, a4, a5, a6, a7, a8, a9, a10, a11]) =
   Encode [a0, a1, a2, a3, a4, a5, a6, a7, a8, a9, a10, a11]"
  unfolding Encode.simps Let_def by (simp add: enc_not_newline)

lemma length12:
  "length (s::'a list) = 12 \<Longrightarrow>
     \<exists>a0 a1 a2 a3 a4 a5 a6 a7 a8 a9 a10 a11. s = [a0, a1, a2, a3, a4, a5, a6, a7, a8, a9, a10, a11]"
  by (auto simp add: length_Suc_conv eval_nat_numeral)

lemma base64_roundtrip12:
  assumes "length s = 12"
  shows "base64_Decode (Encode s) = Some s" "length (Encode s) = 16"
proof -
  obtain a0 a1 a2 a3 a4 a5 a6 a7 a8 a9 a10 a11
    where s: "s = [a0, a1, a2, a3, a4, a5, a6, a7, a8, a9, a10, a11]"
    using length12 [OF assms] by blast
  show "base64_Decode (Encode s) = Some s"
    unfolding s base64_Decode_def Encode_no_newline decode_Encode12 ..
  show "length (Encode s) = 16"
    unfolding s by (simp add: Let_def)
qed

subsection \<open>The identifier\<close>

lemma replicate16: "replicate 16 (x::'a) = [x,x,x,x,x,x,x,x,x,x,x,x,x,x,x,x]"
  by (simp add: eval_nat_numeral)

lemma replicate12: "replicate 12 (x::'a) = [x,x,x,x,x,x,x,x,x,x,x,x]"
  by (simp add: eval_nat_numeral)

lemma new_plain_eq:
  assumes "length marker = 6"
  shows "new_plain now s marker =
    marker @ [ucast (ucast now :: 32 word), ucast (drop_bit 8 (ucast now :: 32 word)),
              ucast (drop_bit 16 (ucast now :: 32 word)),
              ucast s, ucast (drop_bit 8 s), ucast (drop_bit 16 s)]"
  using assms
  by (simp add: new_plain_def Let_def PutUint32_def copy_def replicate16 replicate12)

lemma length_new_plain: "length (new_plain now s marker) = 12"
  by (simp add: new_plain_def Let_def PutUint32_def copy_def)

lemma Decode_dst_New:
  "Decode_dst (fst (New now seq marker)) = Some ((new_plain now (seq + seqInc) marker)[9 := 0])"
  by (simp add: Decode_dst_def New_def Let_def base64_roundtrip12 length_new_plain copy_def
        decode_new_loop)

lemma low24:
  fixes now :: "64 word"
  defines "t \<equiv> (ucast now :: 32 word)"
  shows "(ucast (ucast (ucast t :: byte) OR push_bit 8 (ucast (ucast (drop_bit 8 t) :: byte))
            OR push_bit 16 (ucast (ucast (drop_bit 16 t) :: byte)) :: 32 word) :: 64 word)
         = now AND 0xFFFFFF"
proof -
  have m: "(0xFFFFFF :: 64 word) = mask 24" by (simp add: mask_eq_exp_minus_1)
  have a: "\<And>n k. k \<le> n \<Longrightarrow> k + (n - k) = (n::nat)" by simp
  show ?thesis
    unfolding t_def m
    by (rule bit_word_eqI) (auto simp add: bit_simps a dest: bit_imp_le_length)
qed

text \<open>
  C10. For a six-byte marker, \<open>Decode\<close> applied to the identifier that \<open>New\<close> returns
  gives bytes 2 to 5 of the marker as the IP and a time whose low 24 bits are those of the
  encoding time and whose bits 24 to 31 are those of the decoding clock. The buffer of
  \<open>Decode\<close> is then the twelve plain bytes of \<open>New\<close> with byte 9, the low byte of the
  sequence number, set to zero. The decoding loop is the inverse of the encoding loop on
  every twelve-byte buffer (byte 9 included: it is lost to the assignment after the loop,
  not to the loop).
\<close>

theorem Decode_New:
  assumes "length marker = 6" and "length p = 12"
  shows "Decode now' (fst (New now seq marker)) =
           Some (take 4 (drop 2 marker), (now AND 0xFFFFFF) OR (now' AND 0xFF000000))
         \<and> Decode_dst (fst (New now seq marker)) =
           Some ((new_plain now (snd (New now seq marker)) marker)[9 := 0])
         \<and> decode_loop (new_loop p) = p"
proof -
  obtain m0 m1 m2 m3 m4 m5 where m: "marker = [m0, m1, m2, m3, m4, m5]"
    using assms(1) by (auto simp add: length_Suc_conv eval_nat_numeral)
  have "Decode now' (fst (New now seq marker)) =
           Some (take 4 (drop 2 marker), (now AND 0xFFFFFF) OR (now' AND 0xFF000000))"
    unfolding Decode_def Decode_dst_New
    by (simp add: new_plain_eq m Uint32_def Let_def low24)
  moreover have "snd (New now seq marker) = seq + seqInc"
    by (simp add: New_def Let_def)
  ultimately show ?thesis
    using assms(2) by (simp add: Decode_dst_New decode_new_loop)
qed

theorem Decode_New_witness:
  "length [1, 2, 10, 0, 0, 7 :: byte] = 6
   \<and> length (new_plain 1600000000 673 [1, 2, 10, 0, 0, 7]) = 12
   \<and> Decode 1700000000 (fst (New 1600000000 0 [1, 2, 10, 0, 0, 7]))
       = Some ([10, 0, 0, 7], 1700663296)
   \<and> decode_loop (new_loop (new_plain 1600000000 673 [1, 2, 10, 0, 0, 7]))
       = new_plain 1600000000 673 [1, 2, 10, 0, 0, 7]"
  using Decode_New [of "[1, 2, 10, 0, 0, 7]" "new_plain 1600000000 673 [1, 2, 10, 0, 0, 7]"
      1700000000 1600000000 0]
  by (simp add: length_new_plain)

end
